theory Spec2Isabelle
  imports Main
begin

section \<open>The error taxonomy of sqlmesh/utils/errors.py\<close>

subsection \<open>Exception classes and their bases\<close>

text \<open>
  One constructor per exception class of the module, in the order of the source, together
  with the builtin \<open>Exception\<close> that two of them derive from directly.
\<close>

datatype kind =
    Exception
  | SQLMeshError
  | ConfigError
  | MissingDependencyError
  | MacroEvalError
  | PlanError
  | NoChangesPlanError
  | UncategorizedPlanError
  | ConflictingPlanError
  | MissingContextException
  | SnapshotVersionError
  | MagicError
  | AuditConfigError
  | AuditError
  | TestError
  | NotificationTargetError
  | ApiError
  | ApiClientError
  | ApiServerError
  | NotFoundError
  | CICDBotError
  | ParsetimeAdapterCallError
  | EngineAdapterError
  | UnsupportedCatalogOperationError
  | CircuitBreakerError
  | PythonModelEvalError

text \<open>
  The base written in each \<^verbatim>\<open>class X(Base)\<close> header. Every class of the module has
  exactly one base; \<open>Exception\<close> is where the chain is cut off.
\<close>

fun base :: "kind \<Rightarrow> kind option" where
  "base Exception = None"
| "base SQLMeshError = Some Exception"
| "base ConfigError = Some SQLMeshError"
| "base MissingDependencyError = Some SQLMeshError"
| "base MacroEvalError = Some SQLMeshError"
| "base PlanError = Some SQLMeshError"
| "base NoChangesPlanError = Some PlanError"
| "base UncategorizedPlanError = Some PlanError"
| "base ConflictingPlanError = Some PlanError"
| "base MissingContextException = Some Exception"
| "base SnapshotVersionError = Some SQLMeshError"
| "base MagicError = Some SQLMeshError"
| "base AuditConfigError = Some ConfigError"
| "base AuditError = Some SQLMeshError"
| "base TestError = Some SQLMeshError"
| "base NotificationTargetError = Some SQLMeshError"
| "base ApiError = Some SQLMeshError"
| "base ApiClientError = Some ApiError"
| "base ApiServerError = Some ApiError"
| "base NotFoundError = Some ApiClientError"
| "base CICDBotError = Some SQLMeshError"
| "base ParsetimeAdapterCallError = Some SQLMeshError"
| "base EngineAdapterError = Some SQLMeshError"
| "base UnsupportedCatalogOperationError = Some EngineAdapterError"
| "base CircuitBreakerError = Some SQLMeshError"
| "base PythonModelEvalError = Some SQLMeshError"

text \<open>The number of \<open>base\<close> steps from a class up to \<open>Exception\<close>.\<close>

fun depth :: "kind \<Rightarrow> nat" where
  "depth Exception = 0"
| "depth SQLMeshError = 1"
| "depth MissingContextException = 1"
| "depth NoChangesPlanError = 3"
| "depth UncategorizedPlanError = 3"
| "depth ConflictingPlanError = 3"
| "depth AuditConfigError = 3"
| "depth ApiClientError = 3"
| "depth ApiServerError = 3"
| "depth NotFoundError = 4"
| "depth UnsupportedCatalogOperationError = 3"
| "depth _ = 2"

text \<open>
  The method resolution order of a class: the class, then its base, and so on. With single
  inheritance this is the chain of bases.
\<close>

function mro :: "kind \<Rightarrow> kind list" where
  "mro k = k # (case base k of None \<Rightarrow> [] | Some b \<Rightarrow> mro b)"
  by pat_completeness auto
termination
proof (relation "measure depth")
  show "wf (measure depth)" by simp
next
  fix k b
  assume "base k = Some b"
  then show "(b, k) \<in> measure depth" by (cases k) auto
qed

declare mro.simps [simp del]

text \<open>\<^verbatim>\<open>issubclass(k, g)\<close>: \<open>g\<close> occurs in the resolution order of \<open>k\<close>.\<close>

definition issubclass :: "kind \<Rightarrow> kind \<Rightarrow> bool" where
  "issubclass k g = (g \<in> set (mro k))"

text \<open>
  A handler \<^verbatim>\<open>except g\<close> catches an exception whose class is \<open>k\<close> exactly when
  \<open>k\<close> is \<open>g\<close> or derives from it.
\<close>

definition catches :: "kind \<Rightarrow> kind \<Rightarrow> bool" where
  "catches g k = issubclass k g"

subsection \<open>Values, exception instances and constructor calls\<close>

text \<open>
  The Python values that reach the constructors in this module. Parameter annotations
  (\<^verbatim>\<open>message: str\<close>, \<^verbatim>\<open>code: int\<close>) are not enforced when the program runs, so an
  instance stores whatever value it was given.
\<close>

datatype pyval = PyNone | PyStr string | PyInt int

text \<open>
  An instance of one of the message-carrying classes: its class, the single element of
  \<^verbatim>\<open>args\<close> that \<^verbatim>\<open>Exception.__init__(message)\<close> leaves, and the attribute
  \<^verbatim>\<open>code\<close>, which only \<^verbatim>\<open>ApiError.__init__\<close> sets.
\<close>

record exn =
  exn_kind :: kind
  message :: pyval
  code :: "pyval option"

text \<open>The error the interpreter raises when a call does not fit the signature.\<close>

datatype py_error = TypeError

text \<open>
  Binding the arguments of a call to parameters that have no defaults (\<^verbatim>\<open>self\<close> left
  out): positional arguments fill the parameters from the left, each keyword must name a
  parameter that is still free, and no parameter may stay unbound. The result lists the
  values in parameter order.
\<close>

definition bind_args ::
  "string list \<Rightarrow> pyval list \<Rightarrow> (string \<times> pyval) list \<Rightarrow> py_error + pyval list" where
  "bind_args params pos kw =
     (let rest = drop (length pos) params; keys = map fst kw in
      if length params < length pos then Inl TypeError
      else if \<not> distinct keys then Inl TypeError
      else if list_ex (\<lambda>k. k \<notin> set rest) keys then Inl TypeError
      else (case those (map (map_of kw) rest) of
              None \<Rightarrow> Inl TypeError
            | Some vs \<Rightarrow> Inr (pos @ vs)))"

text \<open>
  \<^verbatim>\<open>cls(message)\<close> for a class that inherits the constructor of \<open>Exception\<close>: all the
  classes whose body is \<^verbatim>\<open>pass\<close> or a docstring.
\<close>

definition Exception_init :: "kind \<Rightarrow> pyval \<Rightarrow> exn" where
  "Exception_init cls msg = \<lparr>exn_kind = cls, message = msg, code = None\<rparr>"

text \<open>
  The assignment \<^verbatim>\<open>e.code = c\<close> on an instance. \<open>ApiError\<close> keeps the code in a plain
  instance attribute, and no class of the module declares a property, \<^verbatim>\<open>__slots__\<close> or
  \<^verbatim>\<open>__setattr__\<close>, so the assignment stores the value, in a constructor and after it.
\<close>

definition assign_code :: "exn \<Rightarrow> pyval \<Rightarrow> exn" where
  "assign_code e c = e\<lparr>code := Some c\<rparr>"

text \<open>
  \<^verbatim>\<open>ApiError.__init__(self, message, code)\<close>: \<^verbatim>\<open>super().__init__(message)\<close>, then
  \<^verbatim>\<open>self.code = code\<close>. \<open>cls\<close> is the class of \<^verbatim>\<open>self\<close>; \<open>ApiClientError\<close> and
  \<open>ApiServerError\<close> inherit this constructor.
\<close>

definition ApiError_init :: "kind \<Rightarrow> pyval \<Rightarrow> pyval \<Rightarrow> exn" where
  "ApiError_init cls msg c = assign_code (Exception_init cls msg) c"

text \<open>\<^verbatim>\<open>NotFoundError.__init__(self, message)\<close>: \<^verbatim>\<open>super().__init__(message, 404)\<close>.\<close>

definition NotFoundError_init :: "pyval \<Rightarrow> exn" where
  "NotFoundError_init msg = ApiError_init NotFoundError msg (PyInt 404)"

text \<open>
  \<^verbatim>\<open>CircuitBreakerError.__init__(self)\<close>:
  \<^verbatim>\<open>super().__init__("Circuit breaker triggered.")\<close>.
\<close>

definition CircuitBreakerError_init :: exn where
  "CircuitBreakerError_init =
     Exception_init CircuitBreakerError (PyStr ''Circuit breaker triggered.'')"

text \<open>
  Calling the classes with arbitrary positional and keyword arguments. The parameter lists
  are those of the \<^verbatim>\<open>__init__\<close> methods above.
\<close>

definition ApiError_call ::
  "kind \<Rightarrow> pyval list \<Rightarrow> (string \<times> pyval) list \<Rightarrow> py_error + exn" where
  "ApiError_call cls pos kw =
     (case bind_args [''message'', ''code''] pos kw of
        Inl err \<Rightarrow> Inl err
      | Inr vs \<Rightarrow> (case vs of [msg, c] \<Rightarrow> Inr (ApiError_init cls msg c) | _ \<Rightarrow> Inl TypeError))"

definition NotFoundError_call ::
  "pyval list \<Rightarrow> (string \<times> pyval) list \<Rightarrow> py_error + exn" where
  "NotFoundError_call pos kw =
     (case bind_args [''message''] pos kw of
        Inl err \<Rightarrow> Inl err
      | Inr vs \<Rightarrow> (case vs of [msg] \<Rightarrow> Inr (NotFoundError_init msg) | _ \<Rightarrow> Inl TypeError))"

definition CircuitBreakerError_call ::
  "pyval list \<Rightarrow> (string \<times> pyval) list \<Rightarrow> py_error + exn" where
  "CircuitBreakerError_call pos kw =
     (case bind_args [] pos kw of
        Inl err \<Rightarrow> Inl err
      | Inr vs \<Rightarrow> (case vs of [] \<Rightarrow> Inr CircuitBreakerError_init | _ \<Rightarrow> Inl TypeError))"

subsection \<open>The two raisers\<close>

text \<open>
  The location of \<open>raise_config_error\<close> is a \<^verbatim>\<open>str\<close> or a \<^verbatim>\<open>pathlib.Path\<close>. A path
  is represented by the text \<^verbatim>\<open>str(path)\<close>. A string is true when it is not empty; a path
  defines neither \<^verbatim>\<open>__bool__\<close> nor \<^verbatim>\<open>__len__\<close> and is always true.
\<close>

datatype location = LocStr string | LocPath string

fun truthy_location :: "location option \<Rightarrow> bool" where
  "truthy_location None = False"
| "truthy_location (Some (LocStr s)) = (s \<noteq> [])"
| "truthy_location (Some (LocPath p)) = True"

text \<open>What \<^verbatim>\<open>{location}\<close> in an f-string produces.\<close>

fun str_location :: "location option \<Rightarrow> string" where
  "str_location None = ''None''"
| "str_location (Some (LocStr s)) = s"
| "str_location (Some (LocPath p)) = p"

text \<open>The apostrophe and the line feed of the message formats.\<close>

abbreviation apostrophe :: char where
  "apostrophe \<equiv> CHR 0x27"

abbreviation newline :: char where
  "newline \<equiv> CHR 0x0A"

text \<open>
  \<open>raise_config_error\<close>. A raised exception is \<open>Inl\<close>, a normal return is \<open>Inr ()\<close>.
  The third argument is \<open>None\<close> when the caller leaves \<^verbatim>\<open>error_type\<close> out, which selects
  the default \<open>ConfigError\<close>. \<^verbatim>\<open>error_type\<close> ranges over \<open>ConfigError\<close> and its
  subclasses, which inherit the constructor of \<open>Exception\<close>.
\<close>

definition raise_config_error :: "string \<Rightarrow> location option \<Rightarrow> kind option \<Rightarrow> exn + unit" where
  "raise_config_error msg location error_type =
     (let cls = (case error_type of None \<Rightarrow> ConfigError | Some t \<Rightarrow> t) in
      if truthy_location location
      then Inl (Exception_init cls
                  (PyStr (msg @ '' at '' @ [apostrophe] @ str_location location @ [apostrophe])))
      else Inl (Exception_init cls (PyStr msg)))"

text \<open>
  The part of a \<^verbatim>\<open>requests\<close> response that \<open>raise_for_status\<close> reads. The record is
  extensible: a response has many more fields.
\<close>

record response =
  status_code :: int
  response_text :: string

definition raise_for_status :: "'a response_scheme \<Rightarrow> exn + unit" where
  "raise_for_status response =
     (if status_code response = 404
      then Inl (NotFoundError_init (PyStr (response_text response)))
      else if 400 \<le> status_code response \<and> status_code response < 500
      then Inl (ApiError_init ApiClientError (PyStr (response_text response))
                  (PyInt (status_code response)))
      else if 500 \<le> status_code response \<and> status_code response < 600
      then Inl (ApiError_init ApiServerError (PyStr (response_text response))
                  (PyInt (status_code response)))
      else Inr ())"

subsection \<open>AuditError\<close>

text \<open>
  Modelled from the spec: the types \<^verbatim>\<open>Model\<close> and \<^verbatim>\<open>exp.Query\<close> are imported from
  other packages. A model is used only through its \<^verbatim>\<open>name\<close>, and as an object without
  \<^verbatim>\<open>__bool__\<close> it is true whenever it is present. A query is used only through its
  rendering \<^verbatim>\<open>query.sql(dialect=..., **opts)\<close>, so it is represented by that function
  of the dialect and the keyword options.
\<close>

record model =
  name :: string

type_synonym opts = "(string \<times> pyval) list"

type_synonym query = "string option \<Rightarrow> opts \<Rightarrow> string"

record audit_error =
  audit_name :: string
  model :: "model option"
  count :: int
  query :: query
  adapter_dialect :: "string option"

text \<open>\<^verbatim>\<open>AuditError.__init__\<close>, with the parameters in the order of the source.\<close>

definition AuditError_init ::
  "string \<Rightarrow> int \<Rightarrow> query \<Rightarrow> model option \<Rightarrow> string option \<Rightarrow> audit_error" where
  "AuditError_init an c q m ad =
     \<lparr>audit_name = an, model = m, count = c, query = q, adapter_dialect = ad\<rparr>"

text \<open>Truth value and f-string rendering of an optional string.\<close>

fun truthy_str :: "string option \<Rightarrow> bool" where
  "truthy_str None = False"
| "truthy_str (Some s) = (s \<noteq> [])"

fun str_opt :: "string option \<Rightarrow> string" where
  "str_opt None = ''None''"
| "str_opt (Some s) = s"

text \<open>\<^verbatim>\<open>str(n)\<close> for an integer: decimal digits, with a minus sign when negative.\<close>

definition digit :: "nat \<Rightarrow> char" where
  "digit d = ''0123456789'' ! d"

function str_nat :: "nat \<Rightarrow> string" where
  "str_nat n = (if n < 10 then [digit n] else str_nat (n div 10) @ [digit (n mod 10)])"
  by pat_completeness auto
termination
  by (relation "measure id") auto

declare str_nat.simps [simp del]

definition str_int :: "int \<Rightarrow> string" where
  "str_int i = (if i < 0 then CHR ''-'' # str_nat (nat (- i)) else str_nat (nat i))"

text \<open>The property \<open>model_name\<close>: \<^verbatim>\<open>self.model.name if self.model else None\<close>.\<close>

definition model_name :: "audit_error \<Rightarrow> string option" where
  "model_name e = (case model e of Some m \<Rightarrow> Some (name m) | None \<Rightarrow> None)"

text \<open>
  \<open>AuditError.sql\<close>: \<^verbatim>\<open>self.query.sql(dialect=dialect or self.adapter_dialect, **opts)\<close>.
  Python's \<^verbatim>\<open>a or b\<close> is \<open>a\<close> when \<open>a\<close> is true and \<open>b\<close> otherwise.
\<close>

definition py_or :: "string option \<Rightarrow> string option \<Rightarrow> string option" where
  "py_or a b = (if truthy_str a then a else b)"

definition AuditError_sql :: "audit_error \<Rightarrow> string option \<Rightarrow> opts \<Rightarrow> string" where
  "AuditError_sql e dialect kwopts = query e (py_or dialect (adapter_dialect e)) kwopts"

text \<open>\<open>AuditError.__str__\<close>; \<^verbatim>\<open>self.sql()\<close> passes no dialect and no options.\<close>

definition AuditError_str :: "audit_error \<Rightarrow> string" where
  "AuditError_str e =
     (let model_str =
        (if truthy_str (model_name e)
         then '' for model '' @ [apostrophe] @ str_opt (model_name e) @ [apostrophe]
         else [])
      in ''Audit '' @ [apostrophe] @ audit_name e @ [apostrophe] @ model_str @ '' failed.''
         @ [newline] @ ''Got '' @ str_int (count e) @ '' results, expected 0.''
         @ [newline] @ AuditError_sql e None [])"

text \<open>
  A query for the examples: its text names the dialect it is rendered for, and differs for
  every dialect.
\<close>

fun example_query :: query where
  "example_query None kwopts = ''SELECT 1''"
| "example_query (Some d) kwopts = ''SELECT 1 -- '' @ d"

section \<open>Properties\<close>

subsection \<open>The hierarchy\<close>

lemma mro_Exception: "mro Exception = [Exception]"
  by (simp add: mro.simps)

lemma mro_SQLMeshError: "mro SQLMeshError = [SQLMeshError, Exception]"
  by (simp add: mro.simps [of SQLMeshError] mro_Exception)

lemma mro_direct:
  "base k = Some SQLMeshError \<Longrightarrow> mro k = [k, SQLMeshError, Exception]"
  by (simp add: mro.simps [of k] mro_SQLMeshError)

lemma mro_second:
  "base k = Some b \<Longrightarrow> base b = Some SQLMeshError \<Longrightarrow> mro k = [k, b, SQLMeshError, Exception]"
  by (simp add: mro.simps [of k] mro_direct)

lemma mro_NotFoundError:
  "mro NotFoundError = [NotFoundError, ApiClientError, ApiError, SQLMeshError, Exception]"
  by (simp add: mro.simps [of NotFoundError] mro_second)

lemma mro_MissingContextException:
  "mro MissingContextException = [MissingContextException, Exception]"
  by (simp add: mro.simps [of MissingContextException] mro_Exception)

lemmas mro_eval =
  mro_Exception mro_SQLMeshError mro_direct mro_second mro_NotFoundError
  mro_MissingContextException

lemma catches_root:
  "catches SQLMeshError k \<longleftrightarrow> k \<noteq> Exception \<and> k \<noteq> MissingContextException"
  by (cases k) (simp_all add: catches_def issubclass_def mro_eval)

lemma catches_config: "catches ConfigError k \<longleftrightarrow> k \<in> {ConfigError, AuditConfigError}"
  by (cases k) (simp_all add: catches_def issubclass_def mro_eval)

lemma catches_plan:
  "catches PlanError k \<longleftrightarrow>
     k \<in> {PlanError, NoChangesPlanError, UncategorizedPlanError, ConflictingPlanError}"
  by (cases k) (simp_all add: catches_def issubclass_def mro_eval)

lemma catches_api:
  "catches ApiError k \<longleftrightarrow> k \<in> {ApiError, ApiClientError, ApiServerError, NotFoundError}"
  by (cases k) (simp_all add: catches_def issubclass_def mro_eval)

lemma catches_engine:
  "catches EngineAdapterError k \<longleftrightarrow>
     k \<in> {EngineAdapterError, UnsupportedCatalogOperationError}"
  by (cases k) (simp_all add: catches_def issubclass_def mro_eval)

lemma catches_missing:
  "catches g MissingContextException \<longleftrightarrow> g \<in> {MissingContextException, Exception}"
  by (cases g) (simp_all add: catches_def issubclass_def mro_eval)

text \<open>
  Claim C7. Every class of the module other than \<open>MissingContextException\<close> derives from
  the root \<open>SQLMeshError\<close>, so a handler for the root catches it. A handler for
  \<open>ConfigError\<close>, \<open>PlanError\<close>, \<open>ApiError\<close> or \<open>EngineAdapterError\<close> catches
  that class and its subclasses and nothing else. \<open>MissingContextException\<close> is caught
  only by a handler for itself or for the builtin \<open>Exception\<close>: no handler for the root or
  for any class below the root catches it.
\<close>

theorem domain_root_membership:
  "(\<forall>k. k \<noteq> Exception \<and> k \<noteq> MissingContextException \<longrightarrow> catches SQLMeshError k)
   \<and> \<not> catches SQLMeshError MissingContextException
   \<and> (\<forall>g. catches SQLMeshError g \<longrightarrow> \<not> catches g MissingContextException)
   \<and> (\<forall>k. catches ConfigError k \<longleftrightarrow> k \<in> {ConfigError, AuditConfigError})
   \<and> (\<forall>k. catches PlanError k \<longleftrightarrow>
          k \<in> {PlanError, NoChangesPlanError, UncategorizedPlanError, ConflictingPlanError})
   \<and> (\<forall>k. catches ApiError k \<longleftrightarrow>
          k \<in> {ApiError, ApiClientError, ApiServerError, NotFoundError})
   \<and> (\<forall>k. catches EngineAdapterError k \<longleftrightarrow>
          k \<in> {EngineAdapterError, UnsupportedCatalogOperationError})"
proof -
  have root: "\<forall>k. k \<noteq> Exception \<and> k \<noteq> MissingContextException \<longrightarrow> catches SQLMeshError k"
    by (simp add: catches_root)
  have outside: "\<not> catches SQLMeshError MissingContextException"
    by (simp add: catches_root)
  have never: "\<forall>g. catches SQLMeshError g \<longrightarrow> \<not> catches g MissingContextException"
    by (simp add: catches_root catches_missing)
  from root outside never catches_config catches_plan catches_api catches_engine
  show ?thesis by blast
qed

theorem domain_root_membership_witness:
  "CircuitBreakerError \<noteq> Exception \<and> CircuitBreakerError \<noteq> MissingContextException
   \<and> catches SQLMeshError CircuitBreakerError
   \<and> catches SQLMeshError PlanError \<and> \<not> catches PlanError MissingContextException
   \<and> catches ApiError NotFoundError \<and> \<not> catches ApiError ConfigError"
  using domain_root_membership by simp

subsection \<open>The HTTP response classifier\<close>

text \<open>
  Claim C1. \<open>raise_for_status\<close> is partitioned by the status code: 404 raises a
  \<open>NotFoundError\<close> whose message is the body and whose code is 404; any other code from
  400 to 499 raises an \<open>ApiClientError\<close> with the body and that code; a code from 500 to
  599 raises an \<open>ApiServerError\<close> with the body and that code; every code below 400 or
  from 600 on returns normally. Whatever is raised is an \<open>ApiError\<close>.
\<close>

theorem raise_for_status_partition:
  fixes r :: "'a response_scheme"
  shows
  "(status_code r = 404 \<longrightarrow>
      raise_for_status r =
        Inl \<lparr>exn_kind = NotFoundError, message = PyStr (response_text r),
             code = Some (PyInt 404)\<rparr>)
   \<and> (400 \<le> status_code r \<and> status_code r < 500 \<and> status_code r \<noteq> 404 \<longrightarrow>
      raise_for_status r =
        Inl \<lparr>exn_kind = ApiClientError, message = PyStr (response_text r),
             code = Some (PyInt (status_code r))\<rparr>)
   \<and> (500 \<le> status_code r \<and> status_code r < 600 \<longrightarrow>
      raise_for_status r =
        Inl \<lparr>exn_kind = ApiServerError, message = PyStr (response_text r),
             code = Some (PyInt (status_code r))\<rparr>)
   \<and> (status_code r < 400 \<or> 600 \<le> status_code r \<longrightarrow> raise_for_status r = Inr ())
   \<and> (\<forall>e. raise_for_status r = Inl e \<longrightarrow> catches ApiError (exn_kind e))"
  by (auto simp: raise_for_status_def NotFoundError_init_def ApiError_init_def assign_code_def
      Exception_init_def catches_api)

theorem raise_for_status_partition_witness:
  "raise_for_status \<lparr>status_code = 404, response_text = ''gone''\<rparr> =
     Inl \<lparr>exn_kind = NotFoundError, message = PyStr ''gone'', code = Some (PyInt 404)\<rparr>
   \<and> raise_for_status \<lparr>status_code = 418, response_text = ''teapot''\<rparr> =
     Inl \<lparr>exn_kind = ApiClientError, message = PyStr ''teapot'', code = Some (PyInt 418)\<rparr>
   \<and> raise_for_status \<lparr>status_code = 503, response_text = ''busy''\<rparr> =
     Inl \<lparr>exn_kind = ApiServerError, message = PyStr ''busy'', code = Some (PyInt 503)\<rparr>
   \<and> raise_for_status \<lparr>status_code = 200, response_text = ''ok''\<rparr> = Inr ()
   \<and> catches ApiError NotFoundError"
  using raise_for_status_partition [of "\<lparr>status_code = 404, response_text = ''gone''\<rparr>"]
    raise_for_status_partition [of "\<lparr>status_code = 418, response_text = ''teapot''\<rparr>"]
    raise_for_status_partition [of "\<lparr>status_code = 503, response_text = ''busy''\<rparr>"]
    raise_for_status_partition [of "\<lparr>status_code = 200, response_text = ''ok''\<rparr>"]
  by (simp add: catches_api)

subsection \<open>The configuration error raiser\<close>

text \<open>
  Claim C2. For a requested class in the \<open>ConfigError\<close> family (\<open>ConfigError\<close> itself
  when none is requested), \<open>raise_config_error\<close> never returns normally: it raises an
  instance of the requested class. The message is the given one when the location is
  absent or the empty string. For a non-empty string \<open>s\<close> it is the given one followed by
  \<^verbatim>\<open> at 's'\<close>, and for a path whose text is \<open>p\<close> it is the given one followed by
  \<^verbatim>\<open> at 'p'\<close>.
\<close>

theorem raise_config_error_raises:
  assumes "cls = (case error_type of None \<Rightarrow> ConfigError | Some t \<Rightarrow> t)"
    and "issubclass cls ConfigError"
  shows "raise_config_error msg location error_type \<noteq> Inr ()
    \<and> (\<exists>e. raise_config_error msg location error_type = Inl e
          \<and> exn_kind e = cls \<and> catches ConfigError (exn_kind e))
    \<and> raise_config_error msg None error_type =
        Inl \<lparr>exn_kind = cls, message = PyStr msg, code = None\<rparr>
    \<and> raise_config_error msg (Some (LocStr [])) error_type =
        Inl \<lparr>exn_kind = cls, message = PyStr msg, code = None\<rparr>
    \<and> (s \<noteq> [] \<longrightarrow>
        raise_config_error msg (Some (LocStr s)) error_type =
          Inl \<lparr>exn_kind = cls,
               message = PyStr (msg @ '' at '' @ [apostrophe] @ s @ [apostrophe]),
               code = None\<rparr>)
    \<and> raise_config_error msg (Some (LocPath p)) error_type =
        Inl \<lparr>exn_kind = cls,
             message = PyStr (msg @ '' at '' @ [apostrophe] @ p @ [apostrophe]),
             code = None\<rparr>"
proof -
  have raises: "raise_config_error msg location error_type \<noteq> Inr ()"
    by (simp add: raise_config_error_def Let_def)
  have kind: "\<exists>e. raise_config_error msg location error_type = Inl e
      \<and> exn_kind e = cls \<and> catches ConfigError (exn_kind e)"
    using assms by (simp add: raise_config_error_def Exception_init_def catches_def Let_def)
  have absent: "raise_config_error msg None error_type =
      Inl \<lparr>exn_kind = cls, message = PyStr msg, code = None\<rparr>"
    using assms(1) by (simp add: raise_config_error_def Exception_init_def)
  have empty: "raise_config_error msg (Some (LocStr [])) error_type =
      Inl \<lparr>exn_kind = cls, message = PyStr msg, code = None\<rparr>"
    using assms(1) by (simp add: raise_config_error_def Exception_init_def)
  have nonempty: "s \<noteq> [] \<longrightarrow>
      raise_config_error msg (Some (LocStr s)) error_type =
        Inl \<lparr>exn_kind = cls,
             message = PyStr (msg @ '' at '' @ [apostrophe] @ s @ [apostrophe]),
             code = None\<rparr>"
    using assms(1) by (simp add: raise_config_error_def Exception_init_def)
  have path: "raise_config_error msg (Some (LocPath p)) error_type =
      Inl \<lparr>exn_kind = cls,
           message = PyStr (msg @ '' at '' @ [apostrophe] @ p @ [apostrophe]),
           code = None\<rparr>"
    using assms(1) by (simp add: raise_config_error_def Exception_init_def)
  from raises kind absent empty nonempty path show ?thesis by blast
qed

theorem raise_config_error_raises_witness:
  "AuditConfigError = (case Some AuditConfigError of None \<Rightarrow> ConfigError | Some t \<Rightarrow> t)
   \<and> issubclass AuditConfigError ConfigError
   \<and> ''cfg.yaml'' \<noteq> []
   \<and> raise_config_error ''bad key'' (Some (LocStr ''cfg.yaml'')) (Some AuditConfigError) =
       Inl \<lparr>exn_kind = AuditConfigError,
            message = PyStr (''bad key at 'cfg.yaml'' @ [apostrophe]), code = None\<rparr>
   \<and> raise_config_error ''bad key'' (Some (LocPath ''models/a.sql'')) (Some AuditConfigError) =
       Inl \<lparr>exn_kind = AuditConfigError,
            message = PyStr (''bad key at 'models/a.sql'' @ [apostrophe]), code = None\<rparr>
   \<and> raise_config_error ''bad key'' None (Some AuditConfigError) =
       Inl \<lparr>exn_kind = AuditConfigError, message = PyStr ''bad key'', code = None\<rparr>
   \<and> ConfigError = (case None of None \<Rightarrow> ConfigError | Some t \<Rightarrow> t)
   \<and> issubclass ConfigError ConfigError
   \<and> raise_config_error ''bad key'' (Some (LocStr [])) None =
       Inl \<lparr>exn_kind = ConfigError, message = PyStr ''bad key'', code = None\<rparr>"
proof -
  have family: "issubclass AuditConfigError ConfigError" "issubclass ConfigError ConfigError"
    by (simp_all add: issubclass_def mro_eval)
  from raise_config_error_raises
    [where cls = AuditConfigError and error_type = "Some AuditConfigError"
      and msg = "''bad key''" and location = None and s = "''cfg.yaml''"
      and p = "''models/a.sql''"]
    raise_config_error_raises
    [where cls = ConfigError and error_type = None and msg = "''bad key''"
      and location = None and s = "''cfg.yaml''" and p = "''models/a.sql''"]
    family
  show ?thesis by simp
qed

subsection \<open>Constructors with a fixed field\<close>

lemma bind_args_none:
  "bind_args [] pos kw = (if pos = [] \<and> kw = [] then Inr [] else Inl TypeError)"
  by (cases kw) (auto simp: bind_args_def Let_def)

lemma bind_args_one:
  "bind_args [p] pos kw = Inr vs \<longleftrightarrow>
     (\<exists>v. vs = [v] \<and> (pos = [v] \<and> kw = [] \<or> pos = [] \<and> kw = [(p, v)]))"
proof (cases pos)
  case Nil
  show ?thesis
  proof (cases kw)
    case Nil
    with \<open>pos = []\<close> show ?thesis by (auto simp: bind_args_def Let_def)
  next
    case (Cons a kw')
    obtain k v where a: "a = (k, v)" by (cases a)
    show ?thesis
    proof (cases kw')
      case Nil
      with \<open>pos = []\<close> Cons a show ?thesis by (auto simp: bind_args_def Let_def)
    next
      case (Cons b kw'')
      with \<open>pos = []\<close> \<open>kw = a # kw'\<close> a show ?thesis
        by (cases b) (auto simp: bind_args_def Let_def)
    qed
  qed
next
  case (Cons x xs)
  then show ?thesis
    by (cases kw; cases xs) (auto simp: bind_args_def Let_def)
qed

text \<open>
  The calls written in \<open>raise_for_status\<close> pass their arguments by position, so they
  bind and reach the constructor bodies.
\<close>

lemma ApiError_call_positional: "ApiError_call cls [msg, c] [] = Inr (ApiError_init cls msg c)"
  by (simp add: ApiError_call_def bind_args_def)

text \<open>
  Claim C5, as amended. A \<open>NotFoundError\<close> has code 404 when it is constructed. Its
  constructor accepts exactly one argument, the message, given by position or by keyword;
  every call that succeeds yields class \<open>NotFoundError\<close> with code 404, so no argument
  list produces another code.
\<close>

theorem NotFoundError_code_fixed:
  "NotFoundError_call [msg] [] = Inr (NotFoundError_init msg)
   \<and> NotFoundError_call [] [(''message'', msg)] = Inr (NotFoundError_init msg)
   \<and> exn_kind (NotFoundError_init msg) = NotFoundError
   \<and> message (NotFoundError_init msg) = msg
   \<and> code (NotFoundError_init msg) = Some (PyInt 404)
   \<and> (\<forall>pos kw e. NotFoundError_call pos kw = Inr e \<longrightarrow>
         exn_kind e = NotFoundError \<and> code e = Some (PyInt 404)
         \<and> (pos = [message e] \<and> kw = [] \<or> pos = [] \<and> kw = [(''message'', message e)]))"
proof -
  have init: "NotFoundError_init m =
      \<lparr>exn_kind = NotFoundError, message = m, code = Some (PyInt 404)\<rparr>" for m
    by (simp add: NotFoundError_init_def ApiError_init_def assign_code_def Exception_init_def)
  have call: "NotFoundError_call pos kw = Inr e \<Longrightarrow>
      e = NotFoundError_init (message e)
      \<and> (pos = [message e] \<and> kw = [] \<or> pos = [] \<and> kw = [(''message'', message e)])"
    for pos kw e
  proof -
    assume c: "NotFoundError_call pos kw = Inr e"
    then obtain vs where vs: "bind_args [''message''] pos kw = Inr vs"
      by (auto simp: NotFoundError_call_def split: sum.splits)
    then obtain v where v: "vs = [v]"
      "pos = [v] \<and> kw = [] \<or> pos = [] \<and> kw = [(''message'', v)]"
      by (auto simp: bind_args_one)
    from c vs v(1) have "e = NotFoundError_init v"
      by (simp add: NotFoundError_call_def)
    with v(2) show ?thesis by (auto simp: init)
  qed
  have ok1: "NotFoundError_call [msg] [] = Inr (NotFoundError_init msg)"
    by (simp add: NotFoundError_call_def bind_args_def Let_def)
  have ok2: "NotFoundError_call [] [(''message'', msg)] = Inr (NotFoundError_init msg)"
    by (simp add: NotFoundError_call_def bind_args_def Let_def)
  have sel: "exn_kind (NotFoundError_init m) = NotFoundError
      \<and> message (NotFoundError_init m) = m
      \<and> code (NotFoundError_init m) = Some (PyInt 404)" for m
    by (simp add: init)
  have all: "\<forall>pos kw e. NotFoundError_call pos kw = Inr e \<longrightarrow>
         exn_kind e = NotFoundError \<and> code e = Some (PyInt 404)
         \<and> (pos = [message e] \<and> kw = [] \<or> pos = [] \<and> kw = [(''message'', message e)])"
  proof (intro allI impI)
    fix pos kw e
    assume "NotFoundError_call pos kw = Inr e"
    from call [OF this] sel [of "message e"]
    show "exn_kind e = NotFoundError \<and> code e = Some (PyInt 404)
         \<and> (pos = [message e] \<and> kw = [] \<or> pos = [] \<and> kw = [(''message'', message e)])"
      by simp
  qed
  from ok1 ok2 sel [of msg] all show ?thesis by blast
qed

theorem NotFoundError_code_fixed_witness:
  "NotFoundError_call [PyStr ''no such plan''] [] =
     Inr \<lparr>exn_kind = NotFoundError, message = PyStr ''no such plan'', code = Some (PyInt 404)\<rparr>
   \<and> code (NotFoundError_init (PyInt 500)) = Some (PyInt 404)"
  using NotFoundError_code_fixed [of "PyStr ''no such plan''"]
    NotFoundError_code_fixed [of "PyInt 500"]
  by (simp add: NotFoundError_init_def ApiError_init_def assign_code_def Exception_init_def)

text \<open>
  Claim C5 as stated says that every \<open>NotFoundError\<close> has code 404 and that the code is
  not settable. The code is a plain attribute: assigning 500 to it on a constructed
  \<open>NotFoundError\<close> succeeds and leaves a \<open>NotFoundError\<close> whose code is 500.
\<close>

theorem NotFoundError_code_assignment_counterexample:
  "exn_kind (assign_code (NotFoundError_init (PyStr ''no such plan'')) (PyInt 500)) =
     NotFoundError
   \<and> code (assign_code (NotFoundError_init (PyStr ''no such plan'')) (PyInt 500)) =
     Some (PyInt 500)
   \<and> code (assign_code (NotFoundError_init (PyStr ''no such plan'')) (PyInt 500)) \<noteq>
     Some (PyInt 404)"
  by (simp add: assign_code_def NotFoundError_init_def ApiError_init_def Exception_init_def)

text \<open>
  Claim C6, as amended. The constructor of \<open>CircuitBreakerError\<close> has no parameter.
  Called without arguments it yields the message \<^verbatim>\<open>Circuit breaker triggered.\<close>; called
  with any positional or keyword argument it fails with \<open>TypeError\<close>. Hence every
  instance that is constructed carries the fixed message, and caller-supplied text is never
  part of it.
\<close>

theorem CircuitBreakerError_message_fixed:
  "CircuitBreakerError_call [] [] = Inr CircuitBreakerError_init
   \<and> exn_kind CircuitBreakerError_init = CircuitBreakerError
   \<and> message CircuitBreakerError_init = PyStr ''Circuit breaker triggered.''
   \<and> (\<forall>pos kw. pos \<noteq> [] \<or> kw \<noteq> [] \<longrightarrow> CircuitBreakerError_call pos kw = Inl TypeError)
   \<and> (\<forall>pos kw e. CircuitBreakerError_call pos kw = Inr e \<longrightarrow>
         message e = PyStr ''Circuit breaker triggered.'')"
  by (auto simp: CircuitBreakerError_call_def bind_args_none CircuitBreakerError_init_def
      Exception_init_def split: if_splits)

theorem CircuitBreakerError_message_fixed_witness:
  "CircuitBreakerError_call [] [] =
     Inr \<lparr>exn_kind = CircuitBreakerError, message = PyStr ''Circuit breaker triggered.'',
          code = None\<rparr>
   \<and> [] \<noteq> [(''message'', PyStr ''tripped'')]
   \<and> CircuitBreakerError_call [] [(''message'', PyStr ''tripped'')] = Inl TypeError"
  using CircuitBreakerError_message_fixed
  by (simp add: CircuitBreakerError_init_def Exception_init_def)

text \<open>
  Claim C6 as stated says that an argument is ignored and never makes construction fail.
  Passing a text makes the call fail: no instance with the fixed message results.
\<close>

theorem CircuitBreakerError_argument_counterexample:
  "CircuitBreakerError_call [PyStr ''tripped''] [] = Inl TypeError
   \<and> CircuitBreakerError_call [PyStr ''tripped''] [] \<noteq>
       Inr \<lparr>exn_kind = CircuitBreakerError, message = PyStr ''Circuit breaker triggered.'',
            code = None\<rparr>"
  by (simp add: CircuitBreakerError_call_def bind_args_none)

subsection \<open>AuditError: rendering and message\<close>

lemma py_or_None: "py_or None b = b"
  by (simp add: py_or_def)

lemma py_or_empty: "py_or (Some []) b = b"
  by (simp add: py_or_def)

lemma py_or_nonempty: "d \<noteq> [] \<Longrightarrow> py_or (Some d) b = Some d"
  by (simp add: py_or_def)

lemma AuditError_sql_init:
  "AuditError_sql (AuditError_init an c q m ad) dialect kwopts = q (py_or dialect ad) kwopts"
  by (simp add: AuditError_sql_def AuditError_init_def)

lemma str_int_3: "str_int 3 = ''3''"
  by (simp add: str_int_def str_nat.simps digit_def)

lemma AuditError_str_unfold:
  "AuditError_str (AuditError_init an c q m ad) =
     ''Audit '' @ [apostrophe] @ an @ [apostrophe]
     @ (case m of
          None \<Rightarrow> []
        | Some mo \<Rightarrow> if name mo = [] then []
                     else '' for model '' @ [apostrophe] @ name mo @ [apostrophe])
     @ '' failed.'' @ [newline] @ ''Got '' @ str_int c @ '' results, expected 0.''
     @ [newline] @ q ad []"
proof -
  have mn: "model_name (AuditError_init an c q m' ad) = map_option name m'" for m'
    by (cases m') (simp_all add: model_name_def AuditError_init_def)
  have fields: "audit_name (AuditError_init an c q m' ad) = an"
    "count (AuditError_init an c q m' ad) = c" for m'
    by (simp_all add: AuditError_init_def)
  show ?thesis
    by (cases m) (simp_all add: AuditError_str_def mn fields AuditError_sql_init py_or_None)
qed

text \<open>
  Claim C4, as amended. \<open>AuditError.sql\<close> picks the dialect in three tiers: a dialect
  argument that is not the empty string is passed to the query; with no dialect argument,
  or the empty string, the adapter dialect stored at construction is passed; and when that
  is absent too the query is rendered without a dialect, which is its default rendering.
\<close>

theorem AuditError_sql_tiers:
  "(d \<noteq> [] \<longrightarrow> AuditError_sql (AuditError_init an c q m ad) (Some d) kwopts = q (Some d) kwopts)
   \<and> AuditError_sql (AuditError_init an c q m (Some a)) None kwopts = q (Some a) kwopts
   \<and> AuditError_sql (AuditError_init an c q m (Some a)) (Some []) kwopts = q (Some a) kwopts
   \<and> AuditError_sql (AuditError_init an c q m None) None kwopts = q None kwopts
   \<and> AuditError_sql (AuditError_init an c q m None) (Some []) kwopts = q None kwopts"
  by (simp add: AuditError_sql_init py_or_None py_or_empty py_or_nonempty)

theorem AuditError_sql_tiers_witness:
  "''trino'' \<noteq> []
   \<and> AuditError_sql (AuditError_init ''a1'' 3 example_query None (Some ''duckdb''))
        (Some ''trino'') [] = ''SELECT 1 -- trino''
   \<and> AuditError_sql (AuditError_init ''a1'' 3 example_query None (Some ''duckdb'')) None [] =
        ''SELECT 1 -- duckdb''
   \<and> AuditError_sql (AuditError_init ''a1'' 3 example_query None None) None [] = ''SELECT 1''"
  using AuditError_sql_tiers [of "''trino''" "''a1''" 3 example_query None "Some ''duckdb''" "[]"
      "''duckdb''"]
  by simp

text \<open>
  Claim C4 as stated says that a dialect argument supplied by the caller is used. The empty
  string is a supplied argument that is not used: with the adapter dialect \<^verbatim>\<open>duckdb\<close>
  stored, the query is rendered for \<^verbatim>\<open>duckdb\<close>, not for the empty dialect.
\<close>

theorem AuditError_sql_supplied_counterexample:
  "AuditError_sql (AuditError_init ''a1'' 3 example_query None (Some ''duckdb'')) (Some []) [] =
     example_query (Some ''duckdb'') []
   \<and> AuditError_sql (AuditError_init ''a1'' 3 example_query None (Some ''duckdb'')) (Some []) [] \<noteq>
     example_query (Some []) []"
  by (simp add: AuditError_sql_init py_or_empty)

text \<open>
  Claim C10. An explicit empty-string dialect is treated like no dialect argument: the
  rendering is the one for the stored adapter dialect, and the default rendering of the
  query when no adapter dialect is stored.
\<close>

theorem AuditError_sql_empty_dialect:
  "AuditError_sql e (Some []) kwopts = AuditError_sql e None kwopts
   \<and> AuditError_sql e (Some []) kwopts = query e (adapter_dialect e) kwopts
   \<and> AuditError_sql (AuditError_init an c q m (Some a)) (Some []) kwopts = q (Some a) kwopts
   \<and> AuditError_sql (AuditError_init an c q m None) (Some []) kwopts = q None kwopts"
proof -
  have general: "AuditError_sql e (Some []) kwopts = AuditError_sql e None kwopts
      \<and> AuditError_sql e (Some []) kwopts = query e (adapter_dialect e) kwopts"
    by (simp add: AuditError_sql_def py_or_None py_or_empty)
  have stored: "AuditError_sql (AuditError_init an c q m (Some a)) (Some []) kwopts =
      q (Some a) kwopts"
    by (simp add: AuditError_sql_init py_or_empty)
  have default: "AuditError_sql (AuditError_init an c q m None) (Some []) kwopts = q None kwopts"
    by (simp add: AuditError_sql_init py_or_empty)
  from general stored default show ?thesis by blast
qed

theorem AuditError_sql_empty_dialect_witness:
  "AuditError_sql (AuditError_init ''a1'' 3 example_query None (Some ''duckdb'')) (Some []) [] =
     ''SELECT 1 -- duckdb''
   \<and> AuditError_sql (AuditError_init ''a1'' 3 example_query None None) (Some []) [] = ''SELECT 1''"
  using AuditError_sql_empty_dialect
      [of "AuditError_init ''a1'' 3 example_query None (Some ''duckdb'')" "[]" "''a1''" 3
        example_query None "''duckdb''"]
  by (simp add: AuditError_sql_init py_or_None)

text \<open>
  Claim C3, as amended. The message of an \<open>AuditError\<close> without a model is
  \<^verbatim>\<open>Audit '<name>' failed.\<close>, a line feed, \<^verbatim>\<open>Got <count> results, expected 0.\<close>, a
  line feed, and the rendered query. With a model whose name is not empty, the clause
  \<^verbatim>\<open> for model '<model>'\<close> stands between the audit name and \<^verbatim>\<open> failed.\<close>.
\<close>

theorem AuditError_str_format:
  "AuditError_str (AuditError_init an c q None ad) =
     ''Audit '' @ [apostrophe] @ an @ [apostrophe] @ '' failed.'' @ [newline]
     @ ''Got '' @ str_int c @ '' results, expected 0.'' @ [newline]
     @ AuditError_sql (AuditError_init an c q None ad) None []
   \<and> (name mo \<noteq> [] \<longrightarrow>
        AuditError_str (AuditError_init an c q (Some mo) ad) =
          ''Audit '' @ [apostrophe] @ an @ [apostrophe]
          @ '' for model '' @ [apostrophe] @ name mo @ [apostrophe] @ '' failed.'' @ [newline]
          @ ''Got '' @ str_int c @ '' results, expected 0.'' @ [newline]
          @ AuditError_sql (AuditError_init an c q (Some mo) ad) None [])"
  by (simp add: AuditError_str_unfold AuditError_sql_init py_or_None)

theorem AuditError_str_format_witness:
  "name \<lparr>name = ''orders''\<rparr> \<noteq> []
   \<and> AuditError_str (AuditError_init ''a1'' 3 example_query (Some \<lparr>name = ''orders''\<rparr>) None) =
       ''Audit 'a1' for model 'orders' failed.'' @ [newline]
       @ ''Got 3 results, expected 0.'' @ [newline] @ ''SELECT 1''
   \<and> AuditError_str (AuditError_init ''a1'' 3 example_query None None) =
       ''Audit 'a1' failed.'' @ [newline]
       @ ''Got 3 results, expected 0.'' @ [newline] @ ''SELECT 1''"
  using AuditError_str_format [of "''a1''" 3 example_query None "\<lparr>name = ''orders''\<rparr>"]
  by (simp add: str_int_3 AuditError_sql_init py_or_None)

text \<open>
  Claim C3 as stated promises the clause whenever a model is attached. A model with the
  empty name is attached, yet the message has no clause: it is the message without a model,
  not the one with \<^verbatim>\<open> for model ''\<close>.
\<close>

theorem AuditError_str_empty_name_counterexample:
  "AuditError_str (AuditError_init ''a1'' 3 example_query (Some \<lparr>name = []\<rparr>) None) =
     ''Audit 'a1' failed.'' @ [newline]
     @ ''Got 3 results, expected 0.'' @ [newline] @ ''SELECT 1''
   \<and> AuditError_str (AuditError_init ''a1'' 3 example_query (Some \<lparr>name = []\<rparr>) None) \<noteq>
     ''Audit 'a1' for model '' @ [apostrophe, apostrophe] @ '' failed.'' @ [newline]
     @ ''Got 3 results, expected 0.'' @ [newline] @ ''SELECT 1''"
  by (simp add: AuditError_str_unfold str_int_3)

text \<open>
  Claim C9. A model with an empty name gives the same message as no model. The clause
  \<^verbatim>\<open> for model '<model>'\<close> is present exactly when a model is attached and its name is
  not empty; in that case the message differs from the one without a model.
\<close>

theorem AuditError_str_clause:
  "(name mo = [] \<longrightarrow>
      AuditError_str (AuditError_init an c q (Some mo) ad) =
      AuditError_str (AuditError_init an c q None ad))
   \<and> (name mo \<noteq> [] \<longrightarrow>
      AuditError_str (AuditError_init an c q (Some mo) ad) \<noteq>
      AuditError_str (AuditError_init an c q None ad))
   \<and> AuditError_str (AuditError_init an c q m ad) =
       ''Audit '' @ [apostrophe] @ an @ [apostrophe]
       @ (if m \<noteq> None \<and> name (the m) \<noteq> []
          then '' for model '' @ [apostrophe] @ name (the m) @ [apostrophe] else [])
       @ '' failed.'' @ [newline] @ ''Got '' @ str_int c @ '' results, expected 0.''
       @ [newline] @ AuditError_sql (AuditError_init an c q m ad) None []"
proof -
  have same: "name mo = [] \<longrightarrow>
      AuditError_str (AuditError_init an c q (Some mo) ad) =
      AuditError_str (AuditError_init an c q None ad)"
    by (simp add: AuditError_str_unfold)
  have differ: "name mo \<noteq> [] \<longrightarrow>
      AuditError_str (AuditError_init an c q (Some mo) ad) \<noteq>
      AuditError_str (AuditError_init an c q None ad)"
  proof
    assume "name mo \<noteq> []"
    then have "length (AuditError_str (AuditError_init an c q (Some mo) ad)) \<noteq>
        length (AuditError_str (AuditError_init an c q None ad))"
      by (simp add: AuditError_str_unfold)
    then show "AuditError_str (AuditError_init an c q (Some mo) ad) \<noteq>
        AuditError_str (AuditError_init an c q None ad)"
      by auto
  qed
  have shape: "AuditError_str (AuditError_init an c q m ad) =
       ''Audit '' @ [apostrophe] @ an @ [apostrophe]
       @ (if m \<noteq> None \<and> name (the m) \<noteq> []
          then '' for model '' @ [apostrophe] @ name (the m) @ [apostrophe] else [])
       @ '' failed.'' @ [newline] @ ''Got '' @ str_int c @ '' results, expected 0.''
       @ [newline] @ AuditError_sql (AuditError_init an c q m ad) None []"
    by (cases m) (simp_all add: AuditError_str_unfold AuditError_sql_init py_or_None)
  from same differ shape show ?thesis by blast
qed

theorem AuditError_str_clause_witness:
  "name \<lparr>name = []\<rparr> = []
   \<and> AuditError_str (AuditError_init ''a1'' 3 example_query (Some \<lparr>name = []\<rparr>) None) =
     AuditError_str (AuditError_init ''a1'' 3 example_query None None)
   \<and> name \<lparr>name = ''orders''\<rparr> \<noteq> []
   \<and> AuditError_str (AuditError_init ''a1'' 3 example_query (Some \<lparr>name = ''orders''\<rparr>) None) \<noteq>
     AuditError_str (AuditError_init ''a1'' 3 example_query None None)"
  using AuditError_str_clause [of "\<lparr>name = []\<rparr>" "''a1''" 3 example_query None]
    AuditError_str_clause [of "\<lparr>name = ''orders''\<rparr>" "''a1''" 3 example_query None]
  by simp

end
